theory Spec2Isabelle
  imports Complex_Main "HOL-Library.Char_ord" "HOL-Library.List_Lexorder"
begin

section \<open>Decoded frames\<close>

text \<open>
  \<^verbatim>\<open>json.Unmarshal\<close> into a \<^verbatim>\<open>map[string]interface{}\<close> produces values of six dynamic
  types: \<^verbatim>\<open>nil\<close>, \<^verbatim>\<open>bool\<close>, \<^verbatim>\<open>float64\<close>, \<^verbatim>\<open>string\<close>, \<^verbatim>\<open>[]interface{}\<close> and
  \<^verbatim>\<open>map[string]interface{}\<close>. The type \<open>'f\<close> stands for \<^verbatim>\<open>float64\<close>; nothing but its zero
  is used by the plugin itself.
\<close>

datatype 'f iface =
    INil
  | IBool bool
  | IFloat64 'f
  | IString string
  | ISlice "'f iface list"
  | IMap "(string \<times> 'f iface) list"

text \<open>The top-level \<^verbatim>\<open>map[string]interface{}\<close> of one frame.\<close>

type_synonym 'f RawEvent = "string \<Rightarrow> 'f iface option"

text \<open>Indexing a Go map with a key it does not hold gives the zero value, a nil interface.\<close>

definition index :: "'f RawEvent \<Rightarrow> string \<Rightarrow> 'f iface" where
  "index m k = (case m k of None \<Rightarrow> INil | Some v \<Rightarrow> v)"

section \<open>The library functions the plugin calls\<close>

text \<open>
  \<^verbatim>\<open>strconv.ParseFloat\<close> either reads a literal, or reads one that is out of range (and
  returns an infinity with \<^verbatim>\<open>ErrRange\<close>), or rejects the text (and returns 0 with
  \<^verbatim>\<open>ErrSyntax\<close>). Which texts are literals and which \<^verbatim>\<open>float64\<close> they denote is left to a
  parameter.
\<close>

datatype 'f atof = Literal 'f | OutOfRange 'f | Malformed

datatype numError = ErrSyntax | ErrRange

record 'f strconv =
  fmtFloat :: "'f \<Rightarrow> string"  \<comment> \<open>\<^verbatim>\<open>%v\<close> of a \<^verbatim>\<open>float64\<close>\<close>
  atof :: "string \<Rightarrow> 'f atof"  \<comment> \<open>the reading of a floating-point literal\<close>

definition ParseFloat :: "('f::zero, 'z) strconv_scheme \<Rightarrow> string \<Rightarrow> 'f \<times> numError option" where
  "ParseFloat L s =
     (case atof L s of
        Literal v \<Rightarrow> (v, None)
      | OutOfRange v \<Rightarrow> (v, Some ErrRange)
      | Malformed \<Rightarrow> (0, Some ErrSyntax))"

text \<open>
  \<^verbatim>\<open>strconv.ParseUint(s, 10, 64)\<close>: the digits are folded from the left; a character that
  is not a decimal digit ends the call with 0 and \<^verbatim>\<open>ErrSyntax\<close>, an overflow of 64 bits
  with the largest value and \<^verbatim>\<open>ErrRange\<close>.
\<close>

definition isDigit :: "char \<Rightarrow> bool" where
  "isDigit c \<longleftrightarrow> c \<in> set ''0123456789''"

definition digit :: "char \<Rightarrow> int" where
  "digit c = of_char c - 48"

definition maxUint64 :: int where
  "maxUint64 = 2 ^ 64 - 1"

fun uintLoop :: "int \<Rightarrow> string \<Rightarrow> int \<times> numError option" where
  "uintLoop n [] = (n, None)"
| "uintLoop n (c # cs) =
     (if \<not> isDigit c then (0, Some ErrSyntax)
      else if n \<ge> maxUint64 div 10 + 1 then (maxUint64, Some ErrRange)
      else if n * 10 + digit c > maxUint64 then (maxUint64, Some ErrRange)
      else uintLoop (n * 10 + digit c) cs)"

definition ParseUint :: "string \<Rightarrow> int \<times> numError option" where
  "ParseUint s = (if s = [] then (0, Some ErrSyntax) else uintLoop 0 s)"

text \<open>
  \<^verbatim>\<open>strconv.ParseInt(s, 10, 64)\<close>: an optional sign, then \<^verbatim>\<open>ParseUint\<close>; a syntax error
  gives 0, a magnitude beyond \<^verbatim>\<open>int64\<close> is clamped.
\<close>

definition ParseInt :: "string \<Rightarrow> int \<times> numError option" where
  "ParseInt s =
     (if s = [] then (0, Some ErrSyntax)
      else
        let neg = (hd s = CHR ''-'');
            s1 = (if hd s = CHR ''+'' \<or> hd s = CHR ''-'' then tl s else s);
            (un, err) = ParseUint s1
        in if err = Some ErrSyntax then (0, err)
           else if \<not> neg \<and> un \<ge> 2 ^ 63 then (2 ^ 63 - 1, Some ErrRange)
           else if neg \<and> un > 2 ^ 63 then (- (2 ^ 63), Some ErrRange)
           else (if neg then - un else un, None))"

text \<open>
  \<^verbatim>\<open>fmt.Sprintf("%v", x)\<close> on a decoded value: a nil interface prints as \<^verbatim>\<open><nil>\<close>, a
  string as itself, a slice as its elements between brackets, a map as its entries in key
  order.
\<close>

fun joinSp :: "string list \<Rightarrow> string" where
  "joinSp [] = []"
| "joinSp [x] = x"
| "joinSp (x # y # ys) = x @ '' '' @ joinSp (y # ys)"

fun Sprintf_v :: "('f, 'z) strconv_scheme \<Rightarrow> 'f iface \<Rightarrow> string" where
  "Sprintf_v L INil = ''<nil>''"
| "Sprintf_v L (IBool b) = (if b then ''true'' else ''false'')"
| "Sprintf_v L (IFloat64 x) = fmtFloat L x"
| "Sprintf_v L (IString s) = s"
| "Sprintf_v L (ISlice xs) = ''['' @ joinSp (map (Sprintf_v L) xs) @ '']''"
| "Sprintf_v L (IMap kvs) =
     ''map['' @ joinSp (map (\<lambda>(k, s). k @ '':'' @ s)
                  (sort_key fst (map (\<lambda>(k, v). (k, Sprintf_v L v)) kvs))) @ '']''"

section \<open>The records\<close>

record 'f Ticker =
  DataType :: string
  ProductId :: string
  Side :: string
  Time :: string
  Price :: 'f
  Open24H :: 'f
  Volume24H :: 'f
  Low24H :: 'f
  High24H :: 'f
  Volume30D :: 'f
  BestBid :: 'f
  BestAsk :: 'f
  Size :: 'f
  SequenceId :: int
  TradeId :: int

text \<open>The fields of \<^verbatim>\<open>L2Update\<close> carry the suffix \<open>_l2\<close>: a field name is a constant.\<close>

record 'f L2Update =
  DataType_l2 :: string
  ProductId_l2 :: string
  Side_l2 :: string
  Price_l2 :: 'f
  Qty_l2 :: 'f
  Time_l2 :: string

section \<open>The normalizers\<close>

text \<open>A failed type assertion and an index out of range (index, length) panic.\<close>

datatype panic = TypeAssertion | IndexOutOfRange nat nat

text \<open>\<^verbatim>\<open>change[i]\<close>.\<close>

definition elemAt :: "'a list \<Rightarrow> nat \<Rightarrow> panic + 'a" where
  "elemAt xs i = (if i < length xs then Inr (xs ! i) else Inl (IndexOutOfRange i (length xs)))"

text \<open>The body of the loop of \<^verbatim>\<open>parseL2Update\<close> for one element \<open>c\<close> of \<^verbatim>\<open>changes\<close>.\<close>

definition l2Row :: "('f::zero, 'z) strconv_scheme \<Rightarrow> 'f RawEvent \<Rightarrow> 'f iface \<Rightarrow> panic + 'f L2Update" where
  "l2Row L l2UpdateData c =
     (case c of
        ISlice change \<Rightarrow>
          (case elemAt change 0 of Inl p \<Rightarrow> Inl p | Inr c0 \<Rightarrow>
          (case elemAt change 1 of Inl p \<Rightarrow> Inl p | Inr c1 \<Rightarrow>
          (case elemAt change 2 of Inl p \<Rightarrow> Inl p | Inr c2 \<Rightarrow>
             Inr \<lparr> DataType_l2 = Sprintf_v L (index l2UpdateData ''type''),
                   ProductId_l2 = Sprintf_v L (index l2UpdateData ''product_id''),
                   Side_l2 = Sprintf_v L c0,
                   Price_l2 = fst (ParseFloat L (Sprintf_v L c1)),
                   Qty_l2 = fst (ParseFloat L (Sprintf_v L c2)),
                   Time_l2 = Sprintf_v L (index l2UpdateData ''time'') \<rparr>)))
      | _ \<Rightarrow> Inl TypeAssertion)"

text \<open>The loop over \<^verbatim>\<open>changes\<close>, appending to \<^verbatim>\<open>updates\<close>; a panic ends it.\<close>

fun l2Loop :: "('f::zero, 'z) strconv_scheme \<Rightarrow> 'f RawEvent \<Rightarrow> 'f L2Update list \<Rightarrow> 'f iface list
    \<Rightarrow> panic + 'f L2Update list" where
  "l2Loop L l2UpdateData updates [] = Inr updates"
| "l2Loop L l2UpdateData updates (c # cs) =
     (case l2Row L l2UpdateData c of
        Inl p \<Rightarrow> Inl p
      | Inr u \<Rightarrow> l2Loop L l2UpdateData (updates @ [u]) cs)"

definition parseL2Update :: "('f::zero, 'z) strconv_scheme \<Rightarrow> 'f RawEvent \<Rightarrow> panic + 'f L2Update list" where
  "parseL2Update L l2UpdateData =
     (case index l2UpdateData ''changes'' of
        ISlice changes \<Rightarrow> l2Loop L l2UpdateData [] changes
      | _ \<Rightarrow> Inl TypeAssertion)"

definition parseTicker :: "('f::zero, 'z) strconv_scheme \<Rightarrow> 'f RawEvent \<Rightarrow> 'f Ticker" where
  "parseTicker L tickerData =
     (let open24H = fst (ParseFloat L (Sprintf_v L (index tickerData ''open_24h'')));
          volume24H = fst (ParseFloat L (Sprintf_v L (index tickerData ''volume_24h'')));
          low24H = fst (ParseFloat L (Sprintf_v L (index tickerData ''low_24h'')));
          high24H = fst (ParseFloat L (Sprintf_v L (index tickerData ''high_24h'')));
          volume30D = fst (ParseFloat L (Sprintf_v L (index tickerData ''volume_30d'')));
          bestBid = fst (ParseFloat L (Sprintf_v L (index tickerData ''best_bid'')));
          bestAsk = fst (ParseFloat L (Sprintf_v L (index tickerData ''best_ask'')));
          sequenceId = fst (ParseInt (Sprintf_v L (index tickerData ''sequence'')));
          tradeId = fst (ParseInt (Sprintf_v L (index tickerData ''trade_id'')));
          size = fst (ParseFloat L (Sprintf_v L (index tickerData ''last_size'')));
          price = fst (ParseFloat L (Sprintf_v L (index tickerData ''price'')))
      in \<lparr> DataType = Sprintf_v L (index tickerData ''type''),
           ProductId = Sprintf_v L (index tickerData ''product_id''),
           Side = Sprintf_v L (index tickerData ''side''),
           Time = Sprintf_v L (index tickerData ''time''),
           Price = price,
           Open24H = open24H,
           Volume24H = volume24H,
           Low24H = low24H,
           High24H = high24H,
           Volume30D = volume30D,
           BestBid = bestBid,
           BestAsk = bestAsk,
           Size = size,
           SequenceId = sequenceId,
           TradeId = tradeId \<rparr>)"

section \<open>Dispatch of one frame\<close>

text \<open>
  \<^verbatim>\<open>encoding/json\<close>: \<^verbatim>\<open>Unmarshal\<close> of a frame into an empty map gives an error or the map;
  \<^verbatim>\<open>Marshal\<close> of a record gives its bytes, or a nil slice together with an error (a
  \<^verbatim>\<open>float64\<close> that is not finite). The type \<open>'b\<close> is that of the marshalled bytes.
\<close>

record ('f, 'b) lib = "'f strconv" +
  Unmarshal :: "string \<Rightarrow> string + 'f RawEvent"
  MarshalTicker :: "'f Ticker \<Rightarrow> 'b option"
  MarshalL2Update :: "'f L2Update \<Rightarrow> 'b option"

text \<open>
  The calls \<^verbatim>\<open>addMetric\<close> makes on its collaborators: \<^verbatim>\<open>wsl.Parser.Parse\<close>, and
  \<^verbatim>\<open>AddError\<close> and \<^verbatim>\<open>AddMetric\<close> of the accumulator.
\<close>

datatype ('b, 'm) call = Parse 'b | AddError string | AddMetric 'm

text \<open>
  \<^verbatim>\<open>addMetric\<close> returns the calls it has made, in order, or the panic that ended it. The
  variable \<^verbatim>\<open>data\<close> is \<open>None\<close> while it is nil; the loop over \<^verbatim>\<open>l2Updates\<close> assigns it
  once per record.
\<close>

definition addMetric :: "('f::zero, 'b, 'z) lib_scheme \<Rightarrow> ('b \<Rightarrow> string + 'm list) \<Rightarrow> string
    \<Rightarrow> panic + ('b, 'm) call list" where
  "addMetric L parser message =
     (case Unmarshal L message of
        Inl err \<Rightarrow> Inr [AddError (''unable to parse incoming msg: '' @ err)]
      | Inr marketData \<Rightarrow>
          (case (if index marketData ''type'' = IString ''ticker''
                 then Inr (MarshalTicker L (parseTicker L marketData))
                 else if index marketData ''type'' = IString ''l2update''
                 then (case parseL2Update L marketData of
                         Inl p \<Rightarrow> Inl p
                       | Inr l2Updates \<Rightarrow>
                           Inr (foldl (\<lambda>data updates. MarshalL2Update L updates) None l2Updates))
                 else Inr None) of
             Inl p \<Rightarrow> Inl p
           | Inr None \<Rightarrow> Inr []
           | Inr (Some data) \<Rightarrow>
               (case parser data of
                  Inl err \<Rightarrow> Inr [Parse data, AddError (''unable to parse incoming msg: '' @ err)]
                | Inr metrics \<Rightarrow> Inr (Parse data # map AddMetric metrics))))"

section \<open>Start\<close>

text \<open>
  What \<^verbatim>\<open>Start\<close> does, in order: two lines on the log, the dial, the \<^verbatim>\<open>go\<close> statement
  that starts \<^verbatim>\<open>read\<close>, the write of \<^verbatim>\<open>subscribe\<close> (message type and payload), and
  \<^verbatim>\<open>log.Fatal\<close>.
\<close>

datatype action =
    LogPrint string
  | Dial string
  | GoRead
  | WriteMessage int string
  | LogFatal string

text \<open>A call returns to its caller, or the process is ended by \<^verbatim>\<open>os.Exit\<close>.\<close>

datatype 'a ending = Returns 'a | Exits int

definition TextMessage :: int where
  "TextMessage = 1"

text \<open>
  The fields of the listener that \<^verbatim>\<open>Start\<close> and \<^verbatim>\<open>Stop\<close> read and write: the connection
  (nil until the dial has succeeded), the embedded \<^verbatim>\<open>io.Closer\<close> (nil unless one has been
  put there) and the counter of the wait group. The channel \<^verbatim>\<open>done\<close> is unbuffered and holds
  nothing. The parser and the accumulator are collaborators: the calls on them are
  recorded, and they are not part of the state.
\<close>

record ('c, 'k) WebSocketListener =
  ServiceAddress :: string
  OnConnectMsg :: string
  conn :: "'c option"
  Closer :: "'k option"
  wg :: nat

text \<open>
  The dialer and the connection's \<^verbatim>\<open>WriteMessage\<close> are parameters: \<open>dial\<close> gives an
  error or a connection, \<open>send\<close> gives the error of the write, if any. \<^verbatim>\<open>log.Fatal\<close> prints
  and calls \<^verbatim>\<open>os.Exit(1)\<close>, so the \<^verbatim>\<open>return err\<close> that follows it is never reached.
\<close>

definition Start :: "(string \<Rightarrow> string + 'c) \<Rightarrow> ('c \<Rightarrow> int \<Rightarrow> string \<Rightarrow> string option)
    \<Rightarrow> ('c, 'k) WebSocketListener
    \<Rightarrow> action list \<times> (('c, 'k) WebSocketListener \<times> string option) ending" where
  "Start dial send wsl =
     (let logged = [LogPrint (''Service Address: '' @ ServiceAddress wsl),
                    LogPrint (''Subscription Request: '' @ OnConnectMsg wsl),
                    Dial (ServiceAddress wsl)]
      in case dial (ServiceAddress wsl) of
           Inl err \<Rightarrow> (logged @ [LogFatal (''dial:'' @ err)], Exits 1)
         | Inr c \<Rightarrow>
             (let wsl' = wsl\<lparr>conn := Some c\<rparr>;
                  spawned = logged @ [GoRead, WriteMessage TextMessage (OnConnectMsg wsl')]
              in case send c TextMessage (OnConnectMsg wsl') of
                   Some err \<Rightarrow> (spawned @ [LogFatal (''subscribe:'' @ err)], Exits 1)
                 | None \<Rightarrow> (spawned, Returns (wsl', None))))"

section \<open>The read path, Stop and the work items\<close>

text \<open>
  After \<^verbatim>\<open>Start\<close> three kinds of goroutine run: the one of \<^verbatim>\<open>read\<close>, one per frame for
  \<^verbatim>\<open>addMetric\<close>, and the caller of \<^verbatim>\<open>Stop\<close>. They are interleaved one statement at a time.

  \<^verbatim>\<open>read\<close> is at its \<^verbatim>\<open>select\<close>, or inside \<^verbatim>\<open>ReadMessage\<close>, or has returned. A call of
  \<^verbatim>\<open>Stop\<close> is at the send \<^verbatim>\<open>wsl.done <- true\<close>, or at the \<^verbatim>\<open>if\<close> on \<^verbatim>\<open>wsl.Closer\<close>, or at
  \<^verbatim>\<open>wsl.wg.Wait()\<close>.
\<close>

datatype readAt = AtSelect | InReadMessage | ReadReturned

datatype stopAt = AtSend | AtCloser | AtWait

text \<open>What can be observed: lines of the log, calls on the parser and the accumulator, the
  call of \<^verbatim>\<open>Close\<close>, the return of a call of \<^verbatim>\<open>Stop\<close>, and a panic, which ends the process.\<close>

datatype ('b, 'm, 'k) event =
    Logged string
  | Called "('b, 'm) call"
  | Closed 'k
  | StopReturned
  | Panicked panic

text \<open>
  The state: the listener; where \<^verbatim>\<open>read\<close> is; where the current call of \<^verbatim>\<open>Stop\<close> is
  (\<open>None\<close> outside a call) and how many calls the caller will still make, one after the
  other; the frames and errors the connection has ready for \<^verbatim>\<open>ReadMessage\<close>; for each
  \<^verbatim>\<open>addMetric\<close> goroutine the calls it has still to make, or its panic; the events so far.
\<close>

record ('b, 'm, 'c, 'k) system =
  listener :: "('c, 'k) WebSocketListener"
  reader :: readAt
  stop :: "stopAt option"
  stops :: nat
  inbound :: "(string + string) list"
  workers :: "(panic + ('b, 'm) call list) list"
  events :: "('b, 'm, 'k) event list"
  crashed :: bool

text \<open>
  The \<^verbatim>\<open>select\<close> of \<^verbatim>\<open>read\<close>. The channel \<^verbatim>\<open>done\<close> is unbuffered: the receive can proceed
  exactly when a call of \<^verbatim>\<open>Stop\<close> is blocked in its send, and then both go on, \<^verbatim>\<open>read\<close> to
  its \<^verbatim>\<open>return\<close> and \<^verbatim>\<open>Stop\<close> past the send. Otherwise the \<^verbatim>\<open>default\<close> case is taken and
  \<^verbatim>\<open>read\<close> calls \<^verbatim>\<open>ReadMessage\<close>.
\<close>

definition readSelect :: "('b, 'm, 'c, 'k) system \<Rightarrow> ('b, 'm, 'c, 'k) system option" where
  "readSelect s =
     (if reader s \<noteq> AtSelect then None
      else if stop s = Some AtSend then Some (s\<lparr>reader := ReadReturned, stop := Some AtCloser\<rparr>)
      else Some (s\<lparr>reader := InReadMessage\<rparr>))"

text \<open>
  \<^verbatim>\<open>ReadMessage\<close> blocks until the connection has a frame or an error. An error is logged
  and \<^verbatim>\<open>read\<close> returns; a frame is logged, \<^verbatim>\<open>go wsl.addMetric(message)\<close> starts a goroutine,
  and the loop goes back to the \<^verbatim>\<open>select\<close>.
\<close>

definition readMessage :: "('f::zero, 'b, 'z) lib_scheme \<Rightarrow> ('b \<Rightarrow> string + 'm list)
    \<Rightarrow> ('b, 'm, 'c, 'k) system \<Rightarrow> ('b, 'm, 'c, 'k) system option" where
  "readMessage L parser s =
     (if reader s \<noteq> InReadMessage then None
      else case inbound s of
             [] \<Rightarrow> None
           | Inl err # rest \<Rightarrow>
               Some (s\<lparr>inbound := rest, reader := ReadReturned,
                      events := events s @ [Logged (''read:  '' @ err)]\<rparr>)
           | Inr message # rest \<Rightarrow>
               Some (s\<lparr>inbound := rest, reader := AtSelect,
                      events := events s @ [Logged (''recv: '' @ message)],
                      workers := workers s @ [addMetric L parser message]\<rparr>))"

text \<open>One goroutine of \<^verbatim>\<open>addMetric\<close> makes its next call; its panic ends the process.\<close>

definition work :: "nat \<Rightarrow> ('b, 'm, 'c, 'k) system \<Rightarrow> ('b, 'm, 'c, 'k) system option" where
  "work i s =
     (if i < length (workers s)
      then case workers s ! i of
             Inl p \<Rightarrow> Some (s\<lparr>crashed := True, events := events s @ [Panicked p]\<rparr>)
           | Inr [] \<Rightarrow> None
           | Inr (c # cs) \<Rightarrow>
               Some (s\<lparr>workers := (workers s)[i := Inr cs], events := events s @ [Called c]\<rparr>)
      else None)"

text \<open>
  \<^verbatim>\<open>Stop\<close>. The caller enters the next call and blocks in the send, which only the
  \<^verbatim>\<open>select\<close> of \<^verbatim>\<open>read\<close> completes. Past the send, the closer is closed and set to nil if it
  is not nil, and \<^verbatim>\<open>wg.Wait()\<close> returns once the counter is 0.
\<close>

definition callStop :: "('b, 'm, 'c, 'k) system \<Rightarrow> ('b, 'm, 'c, 'k) system option" where
  "callStop s =
     (if stop s = None \<and> 0 < stops s then Some (s\<lparr>stop := Some AtSend, stops := stops s - 1\<rparr>)
      else None)"

definition stopCloser :: "('b, 'm, 'c, 'k) system \<Rightarrow> ('b, 'm, 'c, 'k) system option" where
  "stopCloser s =
     (if stop s \<noteq> Some AtCloser then None
      else case Closer (listener s) of
             None \<Rightarrow> Some (s\<lparr>stop := Some AtWait\<rparr>)
           | Some k \<Rightarrow>
               Some (s\<lparr>stop := Some AtWait, listener := (listener s)\<lparr>Closer := None\<rparr>,
                      events := events s @ [Closed k]\<rparr>))"

definition stopWait :: "('b, 'm, 'c, 'k) system \<Rightarrow> ('b, 'm, 'c, 'k) system option" where
  "stopWait s =
     (if stop s = Some AtWait \<and> wg (listener s) = 0
      then Some (s\<lparr>stop := None, events := events s @ [StopReturned]\<rparr>)
      else None)"

text \<open>
  One step of the whole: the connection gets a frame or an error ready, or one of the
  goroutines executes its next statement. A step that cannot be taken (the goroutine is
  blocked, or is elsewhere) is \<open>None\<close>; nothing moves after a panic.
\<close>

datatype move =
    Arrive "string + string"
  | ReadSelect
  | ReadMessage
  | Work nat
  | CallStop
  | StopCloser
  | StopWait

definition exec :: "('f::zero, 'b, 'z) lib_scheme \<Rightarrow> ('b \<Rightarrow> string + 'm list) \<Rightarrow> move
    \<Rightarrow> ('b, 'm, 'c, 'k) system \<Rightarrow> ('b, 'm, 'c, 'k) system option" where
  "exec L parser mv s =
     (if crashed s then None
      else case mv of
             Arrive x \<Rightarrow> Some (s\<lparr>inbound := inbound s @ [x]\<rparr>)
           | ReadSelect \<Rightarrow> readSelect s
           | ReadMessage \<Rightarrow> readMessage L parser s
           | Work i \<Rightarrow> work i s
           | CallStop \<Rightarrow> callStop s
           | StopCloser \<Rightarrow> stopCloser s
           | StopWait \<Rightarrow> stopWait s)"

text \<open>A schedule is a list of moves; it runs as far as every move can be taken.\<close>

fun run :: "('f::zero, 'b, 'z) lib_scheme \<Rightarrow> ('b \<Rightarrow> string + 'm list) \<Rightarrow> move list
    \<Rightarrow> ('b, 'm, 'c, 'k) system \<Rightarrow> ('b, 'm, 'c, 'k) system option" where
  "run L parser [] s = Some s"
| "run L parser (mv # mvs) s =
     (case exec L parser mv s of None \<Rightarrow> None | Some s' \<Rightarrow> run L parser mvs s')"

text \<open>
  The state in which \<^verbatim>\<open>Start\<close> leaves the system: \<^verbatim>\<open>read\<close> has been started, nothing has
  arrived, and the caller will call \<^verbatim>\<open>Stop\<close> \<open>n\<close> times in sequence.
\<close>

definition started :: "('c, 'k) WebSocketListener \<Rightarrow> nat \<Rightarrow> ('b, 'm, 'c, 'k) system" where
  "started w n =
     \<lparr> listener = w, reader = AtSelect, stop = None, stops = n, inbound = [], workers = [],
       events = [], crashed = False \<rparr>"

text \<open>
  What holds of \<^verbatim>\<open>Stop\<close> in every state that can be reached: a call that is past its send,
  or has returned, has been received by \<^verbatim>\<open>read\<close>, which has returned; a call that is past
  its send is the first to be so; and at most one call has returned.
\<close>

definition stopInv :: "('b, 'm, 'c, 'k) system \<Rightarrow> bool" where
  "stopInv s \<longleftrightarrow>
     ((stop s = Some AtCloser \<or> stop s = Some AtWait \<or> StopReturned \<in> set (events s)) \<longrightarrow>
        reader s = ReadReturned) \<and>
     ((stop s = Some AtCloser \<or> stop s = Some AtWait) \<longrightarrow> StopReturned \<notin> set (events s)) \<and>
     length (filter (\<lambda>e. e = StopReturned) (events s)) \<le> 1"

text \<open>A move of the connection, not of a goroutine.\<close>

fun arrival :: "move \<Rightarrow> bool" where
  "arrival (Arrive x) = True"
| "arrival mv = False"

section \<open>Sample collaborators\<close>

text \<open>
  A library and a parser to run the definitions on: \<^verbatim>\<open>float64\<close> is read as a rational,
  two literals are known and one is out of range, the bytes of a record are the record
  itself and the parser makes one metric of them. The sample frames hold strings only, as
  the feed sends its prices, so the printing of a \<^verbatim>\<open>float64\<close> is never asked for: the
  \<open>fmtFloat\<close> below stands in for it and is not Go's. Nor does \<open>sampleAtof\<close> know the
  texts \<^verbatim>\<open>NaN\<close> and \<^verbatim>\<open>Inf\<close>, which \<^verbatim>\<open>strconv.ParseFloat\<close> accepts; no sample holds them.
\<close>

definition sampleAtof :: "string \<Rightarrow> rat atof" where
  "sampleAtof s =
     (if s = ''731.99'' then Literal (73199 / 100)
      else if s = ''1.24025886'' then Literal (124025886 / 100000000)
      else if s = ''1e999'' then OutOfRange 1
      else Malformed)"

definition sellRow :: "rat iface" where
  "sellRow = ISlice [IString ''sell'', IString ''731.99'', IString ''1.24025886'']"

definition buyRow :: "rat iface" where
  "buyRow = ISlice [IString ''buy'', IString ''731.99'', IString ''abc'']"

definition l2Frame :: "rat iface list \<Rightarrow> rat RawEvent" where
  "l2Frame rows =
     [''type'' \<mapsto> IString ''l2update'', ''product_id'' \<mapsto> IString ''ETH-USD'',
      ''changes'' \<mapsto> ISlice rows, ''time'' \<mapsto> IString ''2020-12-28T23:54:32.051347Z'']"

definition tickerFrame :: "rat RawEvent" where
  "tickerFrame =
     [''type'' \<mapsto> IString ''ticker'', ''product_id'' \<mapsto> IString ''ETH-USD'',
      ''price'' \<mapsto> IString ''731.99'', ''side'' \<mapsto> IString ''buy'',
      ''trade_id'' \<mapsto> IString ''71476932'', ''last_size'' \<mapsto> IString ''1.24025886'',
      ''time'' \<mapsto> IString ''2020-12-28T23:54:32.051347Z'']"

text \<open>The two frames as they come from the connection, and their decoding.\<close>

definition l2Message :: string where
  \<open>l2Message = ''{"type":"l2update","product_id":"ETH-USD","changes":[["sell","731.99","1.24025886"],["buy","731.99","abc"]],"time":"2020-12-28T23:54:32.051347Z"}''\<close>

definition tickerMessage :: string where
  \<open>tickerMessage = ''{"type":"ticker","product_id":"ETH-USD","price":"731.99","side":"buy","trade_id":"71476932","last_size":"1.24025886","time":"2020-12-28T23:54:32.051347Z"}''\<close>

definition sampleUnmarshal :: "string \<Rightarrow> string + rat RawEvent" where
  "sampleUnmarshal message =
     (if message = l2Message then Inr (l2Frame [sellRow, buyRow])
      else if message = tickerMessage then Inr tickerFrame
      else Inl ''invalid character'')"

definition sampleLib :: "(rat, rat Ticker + rat L2Update) lib" where
  "sampleLib =
     \<lparr> fmtFloat = (\<lambda>x. if x = 0 then ''0'' else ''1''),
       atof = sampleAtof,
       Unmarshal = sampleUnmarshal,
       MarshalTicker = (\<lambda>t. Some (Inl t)),
       MarshalL2Update = (\<lambda>u. Some (Inr u)) \<rparr>"

definition sampleParser :: "rat Ticker + rat L2Update \<Rightarrow> string + (rat Ticker + rat L2Update) list" where
  "sampleParser data = Inr [data]"

definition sampleListener :: "(nat, nat) WebSocketListener" where
  "sampleListener =
     \<lparr> ServiceAddress = ''wss://ws-feed.pro.coinbase.com'', OnConnectMsg = ''subscribe'',
       conn = None, Closer = None, wg = 0 \<rparr>"

text \<open>A dialer that is refused and one that connects; a write that succeeds and one that fails.\<close>

definition refused :: "string \<Rightarrow> string + nat" where
  "refused address = Inl ''connection refused''"

definition connected :: "string \<Rightarrow> string + nat" where
  "connected address = Inr 7"

definition written :: "nat \<Rightarrow> int \<Rightarrow> string \<Rightarrow> string option" where
  "written c messageType payload = None"

definition brokenPipe :: "nat \<Rightarrow> int \<Rightarrow> string \<Rightarrow> string option" where
  "brokenPipe c messageType payload = Some ''broken pipe''"

text \<open>The listener as \<^verbatim>\<open>newSocketListener\<close> and a successful \<^verbatim>\<open>Start\<close> leave it.\<close>

definition connectedListener :: "(nat, nat) WebSocketListener" where
  "connectedListener = sampleListener\<lparr>conn := Some 7\<rparr>"

type_synonym sampleState =
  "(rat Ticker + rat L2Update, rat Ticker + rat L2Update, nat, nat) system"

definition sampleSystem :: "nat \<Rightarrow> sampleState" where
  "sampleSystem n = started connectedListener n"

text \<open>
  \<^verbatim>\<open>read\<close> is inside \<^verbatim>\<open>ReadMessage\<close>, nothing has arrived on the open connection, and a
  call of \<^verbatim>\<open>Stop\<close> is blocked in its send.
\<close>

definition waiting :: sampleState where
  "waiting = (sampleSystem 0)\<lparr>reader := InReadMessage, stop := Some AtSend\<rparr>"

text \<open>The same, with one goroutine of \<^verbatim>\<open>addMetric\<close> that has not run yet.\<close>

definition waitingBusy :: sampleState where
  "waitingBusy = waiting\<lparr>workers := [addMetric sampleLib sampleParser tickerMessage],
     events := [Logged (''recv: '' @ tickerMessage)]\<rparr>"

text \<open>
  A first call of \<^verbatim>\<open>Stop\<close> has returned, \<^verbatim>\<open>read\<close> has returned with it, and a second call
  is in its send.
\<close>

definition stoppedOnce :: sampleState where
  "stoppedOnce =
     (sampleSystem 0)\<lparr>reader := ReadReturned, stop := Some AtSend, events := [StopReturned]\<rparr>"

section \<open>The L2Update normalizer\<close>

text \<open>One row gives a record exactly when it is a slice of at least three elements.\<close>

lemma l2Row_Inr:
  "l2Row L m c = Inr u \<longleftrightarrow>
     (\<exists>change. c = ISlice change \<and> 3 \<le> length change \<and>
        u = \<lparr> DataType_l2 = Sprintf_v L (index m ''type''),
              ProductId_l2 = Sprintf_v L (index m ''product_id''),
              Side_l2 = Sprintf_v L (change ! 0),
              Price_l2 = fst (ParseFloat L (Sprintf_v L (change ! 1))),
              Qty_l2 = fst (ParseFloat L (Sprintf_v L (change ! 2))),
              Time_l2 = Sprintf_v L (index m ''time'') \<rparr>)"
  by (cases c) (auto simp: l2Row_def elemAt_def)


text \<open>The loop appends one record per row, or panics at the first row that does.\<close>

lemma l2Loop_all:
  "\<forall>c \<in> set cs. \<exists>u. l2Row L m c = Inr u \<Longrightarrow>
     l2Loop L m acc cs = Inr (acc @ map (\<lambda>c. projr (l2Row L m c)) cs)"
  by (induction cs arbitrary: acc) auto


lemmas sample_defs =
  sampleLib_def sampleAtof_def l2Frame_def tickerFrame_def sellRow_def buyRow_def

lemmas l2_defs = parseL2Update_def index_def l2Row_def elemAt_def ParseFloat_def

text \<open>
  C10. A normal return of \<^verbatim>\<open>parseL2Update\<close> requires the key \<^verbatim>\<open>changes\<close> to be present and
  bound to a sequence. When the key is absent, or bound to anything that is not a sequence
  (a JSON null included), the first type assertion panics and no result is returned, not
  even an empty one.
\<close>

theorem parseL2Update_changes_required:
  "((\<forall>changes. l2UpdateData ''changes'' \<noteq> Some (ISlice changes)) \<longrightarrow>
       parseL2Update L l2UpdateData = Inl TypeAssertion) \<and>
   (parseL2Update L l2UpdateData = Inr updates \<longrightarrow>
       (\<exists>changes. l2UpdateData ''changes'' = Some (ISlice changes)))"
proof -
  have absent: "parseL2Update L l2UpdateData = Inl TypeAssertion"
    if "\<forall>changes. l2UpdateData ''changes'' \<noteq> Some (ISlice changes)"
  proof (cases "l2UpdateData ''changes''")
    case None
    then show ?thesis by (simp add: parseL2Update_def index_def)
  next
    case (Some v)
    with that show ?thesis by (cases v) (simp_all add: parseL2Update_def index_def)
  qed
  show ?thesis
  proof (intro conjI impI)
    assume "\<forall>changes. l2UpdateData ''changes'' \<noteq> Some (ISlice changes)"
    then show "parseL2Update L l2UpdateData = Inl TypeAssertion" by (rule absent)
  next
    assume ret: "parseL2Update L l2UpdateData = Inr updates"
    show "\<exists>changes. l2UpdateData ''changes'' = Some (ISlice changes)"
    proof (rule ccontr)
      assume "\<nexists>changes. l2UpdateData ''changes'' = Some (ISlice changes)"
      then have "parseL2Update L l2UpdateData = Inl TypeAssertion" using absent by simp
      with ret show False by simp
    qed
  qed
qed

theorem parseL2Update_changes_required_witness:
  "parseL2Update sampleLib Map.empty = Inl TypeAssertion \<and>
   parseL2Update sampleLib [''changes'' \<mapsto> IString ''sell''] = Inl TypeAssertion \<and>
   parseL2Update sampleLib [''changes'' \<mapsto> INil] = Inl TypeAssertion \<and>
   (\<exists>changes. l2Frame [] ''changes'' = Some (ISlice changes))"
proof -
  have ret: "parseL2Update sampleLib (l2Frame []) = Inr []"
    by (simp add: parseL2Update_def index_def l2Frame_def)
  show ?thesis
    using parseL2Update_changes_required [of Map.empty sampleLib "[]"]
      parseL2Update_changes_required [of "[''changes'' \<mapsto> IString ''sell'']" sampleLib "[]"]
      parseL2Update_changes_required [of "[''changes'' \<mapsto> INil]" sampleLib "[]"]
      parseL2Update_changes_required [of "l2Frame []" sampleLib "[]"] ret
    by simp
qed

text \<open>
  C4. For a frame whose \<^verbatim>\<open>changes\<close> holds K rows of three elements each,
  \<^verbatim>\<open>parseL2Update\<close> returns exactly K records, in the order of the rows, each with the
  frame's \<^verbatim>\<open>type\<close>, \<^verbatim>\<open>product_id\<close> and \<^verbatim>\<open>time\<close> and the row's own side, price and
  quantity. This holds for every K, not only for K > 1.
\<close>

theorem parseL2Update_rows_in_order:
  assumes "l2UpdateData ''changes'' =
             Some (ISlice (map (\<lambda>(side, price, qty). ISlice [side, price, qty]) rows))"
  shows "parseL2Update L l2UpdateData =
           Inr (map (\<lambda>(side, price, qty).
                  \<lparr> DataType_l2 = Sprintf_v L (index l2UpdateData ''type''),
                    ProductId_l2 = Sprintf_v L (index l2UpdateData ''product_id''),
                    Side_l2 = Sprintf_v L side,
                    Price_l2 = fst (ParseFloat L (Sprintf_v L price)),
                    Qty_l2 = fst (ParseFloat L (Sprintf_v L qty)),
                    Time_l2 = Sprintf_v L (index l2UpdateData ''time'') \<rparr>) rows)"
proof -
  let ?cs = "map (\<lambda>(side, price, qty). ISlice [side, price, qty]) rows"
  have "\<forall>c \<in> set ?cs. \<exists>u. l2Row L l2UpdateData c = Inr u"
    by (auto simp: l2Row_Inr)
  then have "l2Loop L l2UpdateData [] ?cs = Inr (map (\<lambda>c. projr (l2Row L l2UpdateData c)) ?cs)"
    using l2Loop_all [of ?cs L l2UpdateData "[]"] by simp
  moreover have "projr (l2Row L l2UpdateData (ISlice [side, price, qty])) =
       \<lparr> DataType_l2 = Sprintf_v L (index l2UpdateData ''type''),
         ProductId_l2 = Sprintf_v L (index l2UpdateData ''product_id''),
         Side_l2 = Sprintf_v L side,
         Price_l2 = fst (ParseFloat L (Sprintf_v L price)),
         Qty_l2 = fst (ParseFloat L (Sprintf_v L qty)),
         Time_l2 = Sprintf_v L (index l2UpdateData ''time'') \<rparr>" for side price qty
    by (simp add: l2Row_def elemAt_def)
  ultimately show ?thesis
    using assms by (simp add: parseL2Update_def index_def case_prod_unfold)
qed

theorem parseL2Update_rows_in_order_witness:
  "parseL2Update sampleLib (l2Frame [sellRow, buyRow]) =
     Inr [\<lparr> DataType_l2 = ''l2update'', ProductId_l2 = ''ETH-USD'', Side_l2 = ''sell'',
            Price_l2 = 73199 / 100, Qty_l2 = 124025886 / 100000000,
            Time_l2 = ''2020-12-28T23:54:32.051347Z'' \<rparr>,
          \<lparr> DataType_l2 = ''l2update'', ProductId_l2 = ''ETH-USD'', Side_l2 = ''buy'',
            Price_l2 = 73199 / 100, Qty_l2 = 0,
            Time_l2 = ''2020-12-28T23:54:32.051347Z'' \<rparr>]"
  using parseL2Update_rows_in_order
    [of "l2Frame [sellRow, buyRow]"
        "[(IString ''sell'', IString ''731.99'', IString ''1.24025886''),
          (IString ''buy'', IString ''731.99'', IString ''abc'')]" sampleLib]
  by (simp add: sample_defs index_def ParseFloat_def)




section \<open>The Ticker normalizer\<close>

lemma index_other: "k' \<noteq> k \<Longrightarrow> index (m(k \<mapsto> v)) k' = index m k'"
  by (simp add: index_def)

lemma index_absent: "m k = None \<Longrightarrow> index m k = INil"
  by (simp add: index_def)

text \<open>\<^verbatim>\<open>strconv.ParseInt\<close> gives 0 with a syntax error; the text \<^verbatim>\<open><nil>\<close> is one.\<close>

lemma ParseInt_syntax: "snd (ParseInt s) = Some ErrSyntax \<Longrightarrow> fst (ParseInt s) = 0"
  by (auto simp: ParseInt_def Let_def split: if_splits prod.splits)

lemma ParseInt_nil: "ParseInt ''<nil>'' = (0, Some ErrSyntax)"
  by (simp add: ParseInt_def ParseUint_def isDigit_def)

text \<open>
  Each numeric field of the record is read from its own key only, and is 0 when the text of
  the value is rejected.
\<close>

lemma parseTicker_Price:
  "atof L (Sprintf_v L (index tickerData ''price'')) = Malformed \<Longrightarrow>
     parseTicker L tickerData =
       (parseTicker L (tickerData(''price'' \<mapsto> v)))\<lparr>Price := 0\<rparr>"
  by (simp add: parseTicker_def ParseFloat_def index_other)

lemma parseTicker_Open24H:
  "atof L (Sprintf_v L (index tickerData ''open_24h'')) = Malformed \<Longrightarrow>
     parseTicker L tickerData =
       (parseTicker L (tickerData(''open_24h'' \<mapsto> v)))\<lparr>Open24H := 0\<rparr>"
  by (simp add: parseTicker_def ParseFloat_def index_other)

lemma parseTicker_Volume24H:
  "atof L (Sprintf_v L (index tickerData ''volume_24h'')) = Malformed \<Longrightarrow>
     parseTicker L tickerData =
       (parseTicker L (tickerData(''volume_24h'' \<mapsto> v)))\<lparr>Volume24H := 0\<rparr>"
  by (simp add: parseTicker_def ParseFloat_def index_other)

lemma parseTicker_Low24H:
  "atof L (Sprintf_v L (index tickerData ''low_24h'')) = Malformed \<Longrightarrow>
     parseTicker L tickerData =
       (parseTicker L (tickerData(''low_24h'' \<mapsto> v)))\<lparr>Low24H := 0\<rparr>"
  by (simp add: parseTicker_def ParseFloat_def index_other)

lemma parseTicker_High24H:
  "atof L (Sprintf_v L (index tickerData ''high_24h'')) = Malformed \<Longrightarrow>
     parseTicker L tickerData =
       (parseTicker L (tickerData(''high_24h'' \<mapsto> v)))\<lparr>High24H := 0\<rparr>"
  by (simp add: parseTicker_def ParseFloat_def index_other)

lemma parseTicker_Volume30D:
  "atof L (Sprintf_v L (index tickerData ''volume_30d'')) = Malformed \<Longrightarrow>
     parseTicker L tickerData =
       (parseTicker L (tickerData(''volume_30d'' \<mapsto> v)))\<lparr>Volume30D := 0\<rparr>"
  by (simp add: parseTicker_def ParseFloat_def index_other)

lemma parseTicker_BestBid:
  "atof L (Sprintf_v L (index tickerData ''best_bid'')) = Malformed \<Longrightarrow>
     parseTicker L tickerData =
       (parseTicker L (tickerData(''best_bid'' \<mapsto> v)))\<lparr>BestBid := 0\<rparr>"
  by (simp add: parseTicker_def ParseFloat_def index_other)

lemma parseTicker_BestAsk:
  "atof L (Sprintf_v L (index tickerData ''best_ask'')) = Malformed \<Longrightarrow>
     parseTicker L tickerData =
       (parseTicker L (tickerData(''best_ask'' \<mapsto> v)))\<lparr>BestAsk := 0\<rparr>"
  by (simp add: parseTicker_def ParseFloat_def index_other)

lemma parseTicker_Size:
  "atof L (Sprintf_v L (index tickerData ''last_size'')) = Malformed \<Longrightarrow>
     parseTicker L tickerData =
       (parseTicker L (tickerData(''last_size'' \<mapsto> v)))\<lparr>Size := 0\<rparr>"
  by (simp add: parseTicker_def ParseFloat_def index_other)

lemma parseTicker_SequenceId:
  "snd (ParseInt (Sprintf_v L (index tickerData ''sequence''))) = Some ErrSyntax \<Longrightarrow>
     parseTicker L tickerData =
       (parseTicker L (tickerData(''sequence'' \<mapsto> v)))\<lparr>SequenceId := 0\<rparr>"
  by (simp add: parseTicker_def ParseInt_syntax index_other)

lemma parseTicker_TradeId:
  "snd (ParseInt (Sprintf_v L (index tickerData ''trade_id''))) = Some ErrSyntax \<Longrightarrow>
     parseTicker L tickerData =
       (parseTicker L (tickerData(''trade_id'' \<mapsto> v)))\<lparr>TradeId := 0\<rparr>"
  by (simp add: parseTicker_def ParseInt_syntax index_other)

text \<open>
  A text that overflows 64 bits before a character that is not a digit is reached is a
  range error, not a syntax error, and the value is clamped.
\<close>

lemma ParseInt_overflow:
  "ParseInt ''99999999999999999999x'' = (9223372036854775807, Some ErrRange)"
  by (simp add: ParseInt_def ParseUint_def isDigit_def digit_def maxUint64_def)

text \<open>
  C3, as stated, fails: a ticker frame whose \<^verbatim>\<open>sequence\<close> is the text
  \<^verbatim>\<open>99999999999999999999x\<close>, which is not a number, gives a record whose \<^verbatim>\<open>SequenceId\<close> is
  the largest \<^verbatim>\<open>int64\<close>, not 0.
\<close>

theorem parseTicker_overflow_not_zero:
  "ParseInt ''99999999999999999999x'' = (9223372036854775807, Some ErrRange) \<and>
   SequenceId
     (parseTicker sampleLib (tickerFrame(''sequence'' \<mapsto> IString ''99999999999999999999x''))) =
     9223372036854775807"
  by (simp add: parseTicker_def index_def ParseInt_overflow)

text \<open>
  C3, amended. In the record \<^verbatim>\<open>parseTicker\<close> returns, a numeric field whose value is absent,
  or has a text that \<^verbatim>\<open>strconv.ParseFloat\<close> (for \<^verbatim>\<open>sequence\<close> and \<^verbatim>\<open>trade_id\<close>:
  \<^verbatim>\<open>strconv.ParseInt\<close>) rejects with a syntax error, is 0, and every other field is what it
  would be with any value \<open>v\<close> under that key. An absent value prints as \<^verbatim>\<open><nil>\<close>, which
  \<^verbatim>\<open>ParseInt\<close> rejects with a syntax error; that \<^verbatim>\<open>ParseFloat\<close> does so too is the
  hypothesis on the library in the case of \<^verbatim>\<open>open_24h\<close>. Nothing is said of a text that is
  rejected with a range error, or that is accepted though it is not a number.
\<close>

theorem parseTicker_lossy:
  "(atof L (Sprintf_v L (index tickerData ''price'')) = Malformed \<longrightarrow>
     parseTicker L tickerData =
       (parseTicker L (tickerData(''price'' \<mapsto> v)))\<lparr>Price := 0\<rparr>) \<and>
   (atof L (Sprintf_v L (index tickerData ''open_24h'')) = Malformed \<longrightarrow>
     parseTicker L tickerData =
       (parseTicker L (tickerData(''open_24h'' \<mapsto> v)))\<lparr>Open24H := 0\<rparr>) \<and>
   (atof L (Sprintf_v L (index tickerData ''volume_24h'')) = Malformed \<longrightarrow>
     parseTicker L tickerData =
       (parseTicker L (tickerData(''volume_24h'' \<mapsto> v)))\<lparr>Volume24H := 0\<rparr>) \<and>
   (atof L (Sprintf_v L (index tickerData ''low_24h'')) = Malformed \<longrightarrow>
     parseTicker L tickerData =
       (parseTicker L (tickerData(''low_24h'' \<mapsto> v)))\<lparr>Low24H := 0\<rparr>) \<and>
   (atof L (Sprintf_v L (index tickerData ''high_24h'')) = Malformed \<longrightarrow>
     parseTicker L tickerData =
       (parseTicker L (tickerData(''high_24h'' \<mapsto> v)))\<lparr>High24H := 0\<rparr>) \<and>
   (atof L (Sprintf_v L (index tickerData ''volume_30d'')) = Malformed \<longrightarrow>
     parseTicker L tickerData =
       (parseTicker L (tickerData(''volume_30d'' \<mapsto> v)))\<lparr>Volume30D := 0\<rparr>) \<and>
   (atof L (Sprintf_v L (index tickerData ''best_bid'')) = Malformed \<longrightarrow>
     parseTicker L tickerData =
       (parseTicker L (tickerData(''best_bid'' \<mapsto> v)))\<lparr>BestBid := 0\<rparr>) \<and>
   (atof L (Sprintf_v L (index tickerData ''best_ask'')) = Malformed \<longrightarrow>
     parseTicker L tickerData =
       (parseTicker L (tickerData(''best_ask'' \<mapsto> v)))\<lparr>BestAsk := 0\<rparr>) \<and>
   (atof L (Sprintf_v L (index tickerData ''last_size'')) = Malformed \<longrightarrow>
     parseTicker L tickerData =
       (parseTicker L (tickerData(''last_size'' \<mapsto> v)))\<lparr>Size := 0\<rparr>) \<and>
   (snd (ParseInt (Sprintf_v L (index tickerData ''sequence''))) = Some ErrSyntax \<longrightarrow>
     parseTicker L tickerData =
       (parseTicker L (tickerData(''sequence'' \<mapsto> v)))\<lparr>SequenceId := 0\<rparr>) \<and>
   (snd (ParseInt (Sprintf_v L (index tickerData ''trade_id''))) = Some ErrSyntax \<longrightarrow>
     parseTicker L tickerData =
       (parseTicker L (tickerData(''trade_id'' \<mapsto> v)))\<lparr>TradeId := 0\<rparr>) \<and>
   (tickerData ''open_24h'' = None \<and> atof L ''<nil>'' = Malformed \<longrightarrow>
     Open24H (parseTicker L tickerData) = 0 \<and>
     parseTicker L tickerData =
       (parseTicker L (tickerData(''open_24h'' \<mapsto> v)))\<lparr>Open24H := 0\<rparr>) \<and>
   (tickerData ''sequence'' = None \<longrightarrow> SequenceId (parseTicker L tickerData) = 0) \<and>
   (tickerData ''trade_id'' = None \<longrightarrow> TradeId (parseTicker L tickerData) = 0)"

proof -
  have absent: "Open24H (parseTicker L tickerData) = 0"
      "parseTicker L tickerData =
        (parseTicker L (tickerData(''open_24h'' \<mapsto> v)))\<lparr>Open24H := 0\<rparr>"
    if "tickerData ''open_24h'' = None" "atof L ''<nil>'' = Malformed"
  proof -
    from that have m: "atof L (Sprintf_v L (index tickerData ''open_24h'')) = Malformed"
      by (simp add: index_absent)
    then show "Open24H (parseTicker L tickerData) = 0"
      by (simp add: parseTicker_def ParseFloat_def)
    from m show "parseTicker L tickerData =
        (parseTicker L (tickerData(''open_24h'' \<mapsto> v)))\<lparr>Open24H := 0\<rparr>"
      by (rule parseTicker_Open24H)
  qed
  have seq: "SequenceId (parseTicker L tickerData) = 0" if "tickerData ''sequence'' = None"
    using that by (simp add: parseTicker_def index_absent ParseInt_nil)
  have trade: "TradeId (parseTicker L tickerData) = 0" if "tickerData ''trade_id'' = None"
    using that by (simp add: parseTicker_def index_absent ParseInt_nil)
  show ?thesis
    by (intro conjI impI; (elim conjE)?;
        (rule parseTicker_Price parseTicker_Open24H parseTicker_Volume24H parseTicker_Low24H parseTicker_High24H parseTicker_Volume30D parseTicker_BestBid parseTicker_BestAsk parseTicker_Size parseTicker_SequenceId parseTicker_TradeId
           absent seq trade; assumption))
qed

theorem parseTicker_lossy_witness:
  "parseTicker sampleLib Map.empty = (parseTicker sampleLib (Map.empty(''price'' \<mapsto> IString ''731.99'')))\<lparr>Price := 0\<rparr> \<and>
   parseTicker sampleLib Map.empty = (parseTicker sampleLib (Map.empty(''open_24h'' \<mapsto> IString ''731.99'')))\<lparr>Open24H := 0\<rparr> \<and>
   parseTicker sampleLib Map.empty = (parseTicker sampleLib (Map.empty(''volume_24h'' \<mapsto> IString ''731.99'')))\<lparr>Volume24H := 0\<rparr> \<and>
   parseTicker sampleLib Map.empty = (parseTicker sampleLib (Map.empty(''low_24h'' \<mapsto> IString ''731.99'')))\<lparr>Low24H := 0\<rparr> \<and>
   parseTicker sampleLib Map.empty = (parseTicker sampleLib (Map.empty(''high_24h'' \<mapsto> IString ''731.99'')))\<lparr>High24H := 0\<rparr> \<and>
   parseTicker sampleLib Map.empty = (parseTicker sampleLib (Map.empty(''volume_30d'' \<mapsto> IString ''731.99'')))\<lparr>Volume30D := 0\<rparr> \<and>
   parseTicker sampleLib Map.empty = (parseTicker sampleLib (Map.empty(''best_bid'' \<mapsto> IString ''731.99'')))\<lparr>BestBid := 0\<rparr> \<and>
   parseTicker sampleLib Map.empty = (parseTicker sampleLib (Map.empty(''best_ask'' \<mapsto> IString ''731.99'')))\<lparr>BestAsk := 0\<rparr> \<and>
   parseTicker sampleLib Map.empty = (parseTicker sampleLib (Map.empty(''last_size'' \<mapsto> IString ''731.99'')))\<lparr>Size := 0\<rparr> \<and>
   parseTicker sampleLib Map.empty = (parseTicker sampleLib (Map.empty(''sequence'' \<mapsto> IString ''731.99'')))\<lparr>SequenceId := 0\<rparr> \<and>
   parseTicker sampleLib Map.empty = (parseTicker sampleLib (Map.empty(''trade_id'' \<mapsto> IString ''731.99'')))\<lparr>TradeId := 0\<rparr> \<and>
   Open24H (parseTicker sampleLib tickerFrame) = 0 \<and>
   parseTicker sampleLib tickerFrame = (parseTicker sampleLib (tickerFrame(''open_24h'' \<mapsto> IString ''731.99'')))\<lparr>Open24H := 0\<rparr> \<and>
   SequenceId (parseTicker sampleLib tickerFrame) = 0 \<and>
   TradeId (parseTicker sampleLib Map.empty) = 0"

proof -
  have floats: "atof sampleLib (Sprintf_v sampleLib (index Map.empty k)) = Malformed" for k
    by (simp add: index_def sampleLib_def sampleAtof_def)
  have ints: "snd (ParseInt (Sprintf_v sampleLib (index Map.empty k))) = Some ErrSyntax" for k
    by (simp add: index_def ParseInt_nil)
  have absent: "tickerFrame ''open_24h'' = None" "tickerFrame ''sequence'' = None"
      "atof sampleLib ''<nil>'' = Malformed"
    by (simp_all add: tickerFrame_def sampleLib_def sampleAtof_def)
  note empty = parseTicker_lossy [of sampleLib Map.empty "IString ''731.99''",
      unfolded floats ints absent simp_thms]
  note frame = parseTicker_lossy [of sampleLib tickerFrame "IString ''731.99''",
      unfolded absent simp_thms]
  show ?thesis
    using empty frame by - (intro conjI; (elim conjE)?; assumption)
qed

section \<open>Dispatch\<close>

text \<open>The loop over \<^verbatim>\<open>l2Updates\<close> keeps the bytes of the last record only.\<close>

lemma foldl_last:
  "foldl (\<lambda>data updates. f updates) d us = (if us = [] then d else f (last us))"
  by (induction us arbitrary: d) auto

lemma addMetric_l2update:
  assumes "Unmarshal L message = Inr marketData"
    and "index marketData ''type'' = IString ''l2update''"
    and "parseL2Update L marketData = Inr l2Updates"
    and "l2Updates \<noteq> []"
  shows "addMetric L parser message =
           (case MarshalL2Update L (last l2Updates) of
              None \<Rightarrow> Inr []
            | Some data \<Rightarrow>
                (case parser data of
                   Inl err \<Rightarrow> Inr [Parse data, AddError (''unable to parse incoming msg: '' @ err)]
                 | Inr metrics \<Rightarrow> Inr (Parse data # map AddMetric metrics)))"
  using assms by (simp add: addMetric_def foldl_last split: option.split)

text \<open>
  C1. A frame with two rows: \<^verbatim>\<open>parseL2Update\<close> gives two records, and \<^verbatim>\<open>addMetric\<close> passes
  the second one only to the parser and forwards its metric only; the record of the first
  row reaches neither the parser nor the accumulator.
\<close>

theorem addMetric_two_rows:
  "parseL2Update sampleLib (l2Frame [sellRow, buyRow]) =
     Inr [\<lparr> DataType_l2 = ''l2update'', ProductId_l2 = ''ETH-USD'', Side_l2 = ''sell'',
            Price_l2 = 73199 / 100, Qty_l2 = 124025886 / 100000000,
            Time_l2 = ''2020-12-28T23:54:32.051347Z'' \<rparr>,
          \<lparr> DataType_l2 = ''l2update'', ProductId_l2 = ''ETH-USD'', Side_l2 = ''buy'',
            Price_l2 = 73199 / 100, Qty_l2 = 0,
            Time_l2 = ''2020-12-28T23:54:32.051347Z'' \<rparr>] \<and>
   addMetric sampleLib sampleParser l2Message =
     Inr [Parse (Inr \<lparr> DataType_l2 = ''l2update'', ProductId_l2 = ''ETH-USD'', Side_l2 = ''buy'',
                      Price_l2 = 73199 / 100, Qty_l2 = 0,
                      Time_l2 = ''2020-12-28T23:54:32.051347Z'' \<rparr>),
          AddMetric (Inr \<lparr> DataType_l2 = ''l2update'', ProductId_l2 = ''ETH-USD'', Side_l2 = ''buy'',
                          Price_l2 = 73199 / 100, Qty_l2 = 0,
                          Time_l2 = ''2020-12-28T23:54:32.051347Z'' \<rparr>)]"
proof -
  have rows: "parseL2Update sampleLib (l2Frame [sellRow, buyRow]) =
     Inr [\<lparr> DataType_l2 = ''l2update'', ProductId_l2 = ''ETH-USD'', Side_l2 = ''sell'',
            Price_l2 = 73199 / 100, Qty_l2 = 124025886 / 100000000,
            Time_l2 = ''2020-12-28T23:54:32.051347Z'' \<rparr>,
          \<lparr> DataType_l2 = ''l2update'', ProductId_l2 = ''ETH-USD'', Side_l2 = ''buy'',
            Price_l2 = 73199 / 100, Qty_l2 = 0,
            Time_l2 = ''2020-12-28T23:54:32.051347Z'' \<rparr>]"
    by (simp add: l2_defs sample_defs)
  have "Unmarshal sampleLib l2Message = Inr (l2Frame [sellRow, buyRow])"
    by (simp add: sampleLib_def sampleUnmarshal_def)
  moreover have "index (l2Frame [sellRow, buyRow]) ''type'' = IString ''l2update''"
    by (simp add: index_def l2Frame_def)
  ultimately show ?thesis
    using rows by (simp add: addMetric_def) (simp add: sampleLib_def sampleParser_def)
qed

section \<open>Start\<close>

text \<open>
  C5, as stated, fails: when the dial is refused, \<^verbatim>\<open>Start\<close> does not return to its caller;
  \<^verbatim>\<open>log.Fatal\<close> ends the process with status 1. The same holds when the write of the
  subscription fails.
\<close>

theorem Start_refused_does_not_return:
  "snd (Start refused written sampleListener) = Exits 1 \<and>
   snd (Start connected brokenPipe sampleListener) = Exits 1"
  by (simp add: Start_def refused_def connected_def brokenPipe_def)

text \<open>
  C5, amended. When the dial fails, \<^verbatim>\<open>Start\<close> logs the error with \<^verbatim>\<open>log.Fatal\<close>, which ends
  the process with status 1: nothing is returned to the caller, the read path is not
  started and nothing is written. When the dial succeeds and the write of the subscription
  fails, \<^verbatim>\<open>Start\<close> ends the process in the same way, after the read path has been started.
\<close>

theorem Start_failure_exits:
  "(dial (ServiceAddress wsl) = Inl err \<longrightarrow>
      Start dial send wsl =
        ([LogPrint (''Service Address: '' @ ServiceAddress wsl),
          LogPrint (''Subscription Request: '' @ OnConnectMsg wsl),
          Dial (ServiceAddress wsl),
          LogFatal (''dial:'' @ err)], Exits 1)) \<and>
   (dial (ServiceAddress wsl) = Inr c \<and> send c TextMessage (OnConnectMsg wsl) = Some err \<longrightarrow>
      Start dial send wsl =
        ([LogPrint (''Service Address: '' @ ServiceAddress wsl),
          LogPrint (''Subscription Request: '' @ OnConnectMsg wsl),
          Dial (ServiceAddress wsl),
          GoRead,
          WriteMessage TextMessage (OnConnectMsg wsl),
          LogFatal (''subscribe:'' @ err)], Exits 1))"
  by (simp add: Start_def)

theorem Start_failure_exits_witness:
  "Start refused written sampleListener =
     ([LogPrint ''Service Address: wss://ws-feed.pro.coinbase.com'',
       LogPrint ''Subscription Request: subscribe'',
       Dial ''wss://ws-feed.pro.coinbase.com'',
       LogFatal ''dial:connection refused''], Exits 1) \<and>
   Start connected brokenPipe sampleListener =
     ([LogPrint ''Service Address: wss://ws-feed.pro.coinbase.com'',
       LogPrint ''Subscription Request: subscribe'',
       Dial ''wss://ws-feed.pro.coinbase.com'',
       GoRead,
       WriteMessage 1 ''subscribe'',
       LogFatal ''subscribe:broken pipe''], Exits 1)"
  using Start_failure_exits [where dial = refused
      and wsl = sampleListener and err = "''connection refused''" and c = "7::nat"
      and send = written]
    Start_failure_exits [where dial = connected
      and wsl = sampleListener and err = "''broken pipe''" and c = "7::nat"
      and send = brokenPipe]
  by (simp add: sampleListener_def TextMessage_def refused_def connected_def written_def brokenPipe_def)

text \<open>
  C8, as stated, fails: on a successful connect the \<^verbatim>\<open>go\<close> statement that starts the read
  path comes before the write of the subscription, not after it.
\<close>

theorem Start_reads_before_subscribing:
  "fst (Start connected written sampleListener) =
     [LogPrint ''Service Address: wss://ws-feed.pro.coinbase.com'',
      LogPrint ''Subscription Request: subscribe'',
      Dial ''wss://ws-feed.pro.coinbase.com'',
      GoRead,
      WriteMessage TextMessage ''subscribe'']"
  by (simp add: Start_def sampleListener_def connected_def written_def)

text \<open>
  C8, amended. On a successful connect, \<^verbatim>\<open>Start\<close> writes \<^verbatim>\<open>OnConnectMsg\<close> as one text frame,
  exactly once and as it is configured, after it has started the read path.
\<close>

theorem Start_subscribes_once:
  "dial (ServiceAddress wsl) = Inr c \<Longrightarrow>
     fst (Start dial send wsl) =
       [LogPrint (''Service Address: '' @ ServiceAddress wsl),
        LogPrint (''Subscription Request: '' @ OnConnectMsg wsl),
        Dial (ServiceAddress wsl),
        GoRead,
        WriteMessage TextMessage (OnConnectMsg wsl)] @
       (case send c TextMessage (OnConnectMsg wsl) of
          None \<Rightarrow> []
        | Some err \<Rightarrow> [LogFatal (''subscribe:'' @ err)])"
  by (simp add: Start_def split: option.split)

theorem Start_subscribes_once_witness:
  "fst (Start connected written sampleListener) =
     [LogPrint ''Service Address: wss://ws-feed.pro.coinbase.com'',
      LogPrint ''Subscription Request: subscribe'',
      Dial ''wss://ws-feed.pro.coinbase.com'',
      GoRead,
      WriteMessage 1 ''subscribe'']"
  using Start_subscribes_once [where dial = connected and wsl = sampleListener
      and c = "7::nat" and send = written]
  by (simp add: sampleListener_def TextMessage_def refused_def connected_def written_def brokenPipe_def)

section \<open>Stop and the goroutines\<close>

lemmas step_defs = exec_def readSelect_def readMessage_def work_def callStop_def stopCloser_def
  stopWait_def

text \<open>What a move requires, and what it does to the places of \<^verbatim>\<open>Stop\<close> and \<^verbatim>\<open>read\<close> and to
  the events.\<close>

lemma exec_guard:
  assumes "exec L parser mv s = Some s'"
  shows "(mv = ReadSelect \<longrightarrow> reader s = AtSelect) \<and>
         (mv = ReadMessage \<longrightarrow> reader s = InReadMessage \<and> inbound s \<noteq> []) \<and>
         (mv = CallStop \<longrightarrow> stop s = None) \<and>
         (mv = StopCloser \<longrightarrow> stop s = Some AtCloser) \<and>
         (mv = StopWait \<longrightarrow> stop s = Some AtWait)"
  using assms by (cases mv) (simp_all add: step_defs split: if_splits list.splits)

lemma exec_stop:
  assumes "exec L parser mv s = Some s'"
  shows "stop s' =
           (case mv of
              ReadSelect \<Rightarrow> if stop s = Some AtSend then Some AtCloser else stop s
            | CallStop \<Rightarrow> Some AtSend
            | StopCloser \<Rightarrow> Some AtWait
            | StopWait \<Rightarrow> None
            | _ \<Rightarrow> stop s)"
  using assms
  by (cases mv)
    (auto simp: step_defs split: if_splits list.splits sum.splits option.splits)

lemma exec_reader:
  assumes "exec L parser mv s = Some s'"
  shows "reader s' =
           (case mv of
              ReadSelect \<Rightarrow> if stop s = Some AtSend then ReadReturned else InReadMessage
            | ReadMessage \<Rightarrow> (case hd (inbound s) of Inl err \<Rightarrow> ReadReturned | Inr message \<Rightarrow> AtSelect)
            | _ \<Rightarrow> reader s)"
  using assms
  by (cases mv)
    (auto simp: step_defs split: if_splits list.splits sum.splits option.splits)

lemma exec_inbound:
  assumes "exec L parser mv s = Some s'"
  shows "inbound s' =
           (case mv of
              Arrive x \<Rightarrow> inbound s @ [x]
            | ReadMessage \<Rightarrow> tl (inbound s)
            | _ \<Rightarrow> inbound s)"
  using assms
  by (cases mv)
    (auto simp: step_defs split: if_splits list.splits sum.splits option.splits)

lemma exec_returned:
  assumes "exec L parser mv s = Some s'"
  shows "filter (\<lambda>e. e = StopReturned) (events s') =
           filter (\<lambda>e. e = StopReturned) (events s) @ (if mv = StopWait then [StopReturned] else [])"
  using assms
  by (cases mv)
    (auto simp: step_defs split: if_splits list.splits sum.splits option.splits)


lemma returned_iff:
  "StopReturned \<in> set es \<longleftrightarrow> filter (\<lambda>e. e = StopReturned) es \<noteq> []"
  by (induction es) auto

text \<open>
  Once a call of \<^verbatim>\<open>Stop\<close> is past its send, \<^verbatim>\<open>read\<close> has returned, and it never leaves that
  state; so no later call gets past its send.
\<close>

lemma stopInv_exec:
  assumes "stopInv s" and "exec L parser mv s = Some s'"
  shows "stopInv s'"
  using assms(1) exec_guard [OF assms(2)] exec_stop [OF assms(2)] exec_reader [OF assms(2)]
    exec_returned [OF assms(2)]
  by (cases mv) (auto simp: stopInv_def returned_iff)

lemma stopInv_run: "stopInv s \<Longrightarrow> run L parser mvs s = Some s' \<Longrightarrow> stopInv s'"
  by (induction mvs arbitrary: s) (auto split: option.splits dest: stopInv_exec)

lemma stopInv_started: "stopInv (started w n)"
  by (simp add: stopInv_def started_def)

text \<open>When \<^verbatim>\<open>read\<close> has returned, a call of \<^verbatim>\<open>Stop\<close> that is at its send stays there.\<close>

lemma blocked_exec:
  assumes "reader s = ReadReturned" and "stop s = Some AtSend"
    and "exec L parser mv s = Some s'"
  shows "reader s' = ReadReturned \<and> stop s' = Some AtSend"
  using assms(1,2) exec_guard [OF assms(3)] exec_stop [OF assms(3)] exec_reader [OF assms(3)]
  by (cases mv) simp_all

lemma blocked_run:
  "reader s = ReadReturned \<Longrightarrow> stop s = Some AtSend \<Longrightarrow> run L parser mvs s = Some s' \<Longrightarrow>
     reader s' = ReadReturned \<and> stop s' = Some AtSend"
proof (induction mvs arbitrary: s)
  case Nil
  then show ?case by simp
next
  case (Cons mv mvs)
  then obtain t where t: "exec L parser mv s = Some t" "run L parser mvs t = Some s'"
    by (auto split: option.splits)
  from blocked_exec [OF Cons.prems(1,2) t(1)] Cons.IH [OF _ _ t(2)]
  show ?case by simp
qed


lemmas system_defs = sampleSystem_def started_def connectedListener_def sampleListener_def

text \<open>No statement of the plugin adds to the wait group: its counter never changes.\<close>

lemma wg_exec: "exec L parser mv s = Some s' \<Longrightarrow> wg (listener s') = wg (listener s)"
  by (cases mv)
    (auto simp: step_defs split: if_splits list.splits sum.splits option.splits)

lemma wg_run: "run L parser mvs s = Some s' \<Longrightarrow> wg (listener s') = wg (listener s)"
  by (induction mvs arbitrary: s) (auto split: option.splits dest: wg_exec)

lemma addMetric_ticker:
  "addMetric sampleLib sampleParser tickerMessage =
     Inr [Parse (Inl (parseTicker sampleLib tickerFrame)),
          AddMetric (Inl (parseTicker sampleLib tickerFrame))]"
proof -
  have "Unmarshal sampleLib tickerMessage = Inr tickerFrame"
    by (simp add: sampleLib_def sampleUnmarshal_def l2Message_def tickerMessage_def)
  moreover have "index tickerFrame ''type'' = IString ''ticker''"
    by (simp add: index_def tickerFrame_def)
  ultimately show ?thesis
    by (simp add: addMetric_def) (simp add: sampleLib_def sampleParser_def)
qed

text \<open>
  C6. One frame arrives and is read, which starts a goroutine of \<^verbatim>\<open>addMetric\<close>; then
  \<^verbatim>\<open>Stop\<close> is called, its send is received by \<^verbatim>\<open>read\<close>, the closer is nil, and
  \<^verbatim>\<open>wg.Wait()\<close> returns at once, the counter being 0. \<^verbatim>\<open>Stop\<close> has returned, and the
  goroutine then calls the parser and \<^verbatim>\<open>AddMetric\<close>.
\<close>

theorem Stop_returns_before_addMetric:
  "map_option events
     (run sampleLib sampleParser
        [Arrive (Inr tickerMessage), ReadSelect, ReadMessage,
         CallStop, ReadSelect, StopCloser, StopWait,
         Work 0, Work 0]
        (sampleSystem 1)) =
   Some [Logged (''recv: '' @ tickerMessage),
         StopReturned,
         Called (Parse (Inl (parseTicker sampleLib tickerFrame))),
         Called (AddMetric (Inl (parseTicker sampleLib tickerFrame)))]"
  by (simp add: step_defs system_defs addMetric_ticker)

text \<open>With a nil closer, as \<^verbatim>\<open>newSocketListener\<close> leaves it, \<^verbatim>\<open>Stop\<close> closes nothing.\<close>

lemma closer_exec:
  assumes "Closer (listener s) = None" and "\<forall>k. Closed k \<notin> set (events s)"
    and "exec L parser mv s = Some s'"
  shows "Closer (listener s') = None \<and> (\<forall>k. Closed k \<notin> set (events s'))"
  using assms
  by (cases mv)
    (auto simp: step_defs split: if_splits list.splits sum.splits option.splits)

lemma closer_run:
  "Closer (listener s) = None \<Longrightarrow> \<forall>k. Closed k \<notin> set (events s) \<Longrightarrow>
   run L parser mvs s = Some s' \<Longrightarrow>
     Closer (listener s') = None \<and> (\<forall>k. Closed k \<notin> set (events s'))"
proof (induction mvs arbitrary: s)
  case Nil
  then show ?case by simp
next
  case (Cons mv mvs)
  then obtain t where t: "exec L parser mv s = Some t" "run L parser mvs t = Some s'"
    by (auto split: option.splits)
  from closer_exec [OF Cons.prems(1,2) t(1)]
  have "Closer (listener t) = None" and "\<forall>k. Closed k \<notin> set (events t)" by simp_all
  then show ?case using t(2) by (rule Cons.IH [of t])
qed

text \<open>
  C7. However the goroutines are scheduled and however many times \<^verbatim>\<open>Stop\<close> is called in
  sequence, at most one call returns: when one has returned, \<^verbatim>\<open>read\<close> has returned too, so
  the send of a second call finds no receiver, the call is never past it, and never
  returns. The same holds of a first call made after \<^verbatim>\<open>read\<close> has returned on a read error.
\<close>

theorem Stop_returns_at_most_once:
  assumes "run L parser mvs (started w n) = Some s"
  shows "length (filter (\<lambda>e. e = StopReturned) (events s)) \<le> 1 \<and>
         (StopReturned \<in> set (events s) \<longrightarrow>
            reader s = ReadReturned \<and> stop s \<noteq> Some AtCloser \<and> stop s \<noteq> Some AtWait)"
  using stopInv_run [OF stopInv_started assms] by (auto simp: stopInv_def)

theorem Stop_returns_at_most_once_witness:
  "run sampleLib sampleParser [CallStop, ReadSelect, StopCloser, StopWait, CallStop]
     (sampleSystem 2) = Some stoppedOnce \<and>
   length (filter (\<lambda>e. e = StopReturned) (events stoppedOnce)) \<le> 1 \<and>
   reader stoppedOnce = ReadReturned \<and> stop stoppedOnce = Some AtSend \<and>
   exec sampleLib sampleParser ReadSelect stoppedOnce = None"
proof -
  have r: "run sampleLib sampleParser [CallStop, ReadSelect, StopCloser, StopWait, CallStop]
      (started connectedListener 2) = Some stoppedOnce"
    by (simp add: step_defs system_defs stoppedOnce_def)
  have "StopReturned \<in> set (events stoppedOnce)"
    by (simp add: stoppedOnce_def)
  with Stop_returns_at_most_once [OF r] r show ?thesis
    by (simp add: step_defs sampleSystem_def) (simp add: stoppedOnce_def)
qed

text \<open>
  C9, as stated, fails. \<^verbatim>\<open>read\<close> has found no stop signal at its \<^verbatim>\<open>select\<close> and is inside
  \<^verbatim>\<open>ReadMessage\<close>; \<^verbatim>\<open>Stop\<close> is then called. While no frame arrives, \<^verbatim>\<open>read\<close> does not
  observe the signal: neither goroutine can take a step.
\<close>

theorem Stop_unobserved_while_reading:
  "run sampleLib sampleParser [ReadSelect, CallStop] (sampleSystem 1) = Some waiting \<and>
   reader waiting = InReadMessage \<and> stop waiting = Some AtSend \<and>
   conn (listener waiting) = Some 7 \<and> inbound waiting = [] \<and>
   exec sampleLib sampleParser ReadSelect waiting = None \<and>
   exec sampleLib sampleParser ReadMessage waiting = None \<and>
   exec sampleLib sampleParser StopCloser waiting = None \<and>
   exec sampleLib sampleParser StopWait waiting = None"
  by (simp add: step_defs system_defs waiting_def)

text \<open>While nothing arrives, \<^verbatim>\<open>read\<close> stays inside \<^verbatim>\<open>ReadMessage\<close> and \<^verbatim>\<open>Stop\<close> in its send.\<close>

lemma waiting_exec:
  assumes "reader s = InReadMessage" and "inbound s = []" and "stop s = Some AtSend"
    and "\<not> arrival mv" and "exec L parser mv s = Some s'"
  shows "reader s' = InReadMessage \<and> inbound s' = [] \<and> stop s' = Some AtSend"
  using assms(1-4) exec_guard [OF assms(5)] exec_stop [OF assms(5)] exec_reader [OF assms(5)]
    exec_inbound [OF assms(5)]
  by (cases mv) simp_all

lemma waiting_run:
  "reader s = InReadMessage \<Longrightarrow> inbound s = [] \<Longrightarrow> stop s = Some AtSend \<Longrightarrow>
   \<forall>mv \<in> set mvs. \<not> arrival mv \<Longrightarrow> run L parser mvs s = Some s' \<Longrightarrow>
     reader s' = InReadMessage \<and> inbound s' = [] \<and> stop s' = Some AtSend"
proof (induction mvs arbitrary: s)
  case Nil
  then show ?case by simp
next
  case (Cons mv mvs)
  then obtain t where t: "exec L parser mv s = Some t" "run L parser mvs t = Some s'"
    by (auto split: option.splits)
  from Cons.prems(4) have mv: "\<not> arrival mv" and mvs: "\<forall>mv \<in> set mvs. \<not> arrival mv"
    by simp_all
  from waiting_exec [OF Cons.prems(1-3) mv t(1)]
  have "reader t = InReadMessage" and "inbound t = []" and "stop t = Some AtSend" by simp_all
  then show ?case using mvs t(2) by (rule Cons.IH [of t])
qed

text \<open>
  C9, amended. At its \<^verbatim>\<open>select\<close>, \<^verbatim>\<open>read\<close> polls the stop signal without blocking: when a
  call of \<^verbatim>\<open>Stop\<close> is blocked in its send, \<^verbatim>\<open>read\<close> receives and returns; otherwise it
  calls \<^verbatim>\<open>ReadMessage\<close>. Inside \<^verbatim>\<open>ReadMessage\<close> it is blocked until a frame or an error
  arrives: a stop signal raised meanwhile is not observed, and \<^verbatim>\<open>Stop\<close> stays in its send,
  whatever the other goroutines do.
\<close>

theorem read_polls_then_blocks:
  "(reader s = AtSelect \<and> \<not> crashed s \<longrightarrow>
      exec L parser ReadSelect s =
        Some (if stop s = Some AtSend then s\<lparr>reader := ReadReturned, stop := Some AtCloser\<rparr>
              else s\<lparr>reader := InReadMessage\<rparr>)) \<and>
   (reader s = InReadMessage \<and> inbound s = [] \<and> stop s = Some AtSend \<and>
    (\<forall>mv \<in> set mvs. \<not> arrival mv) \<and> run L parser mvs s = Some s' \<longrightarrow>
      reader s' = InReadMessage \<and> inbound s' = [] \<and> stop s' = Some AtSend)"
proof (rule conjI; rule impI)
  assume "reader s = AtSelect \<and> \<not> crashed s"
  then show "exec L parser ReadSelect s =
      Some (if stop s = Some AtSend then s\<lparr>reader := ReadReturned, stop := Some AtCloser\<rparr>
            else s\<lparr>reader := InReadMessage\<rparr>)"
    by (simp add: exec_def readSelect_def)
next
  assume "reader s = InReadMessage \<and> inbound s = [] \<and> stop s = Some AtSend \<and>
    (\<forall>mv \<in> set mvs. \<not> arrival mv) \<and> run L parser mvs s = Some s'"
  then show "reader s' = InReadMessage \<and> inbound s' = [] \<and> stop s' = Some AtSend"
    using waiting_run [of s mvs L parser s'] by blast
qed

theorem read_polls_then_blocks_witness:
  "exec sampleLib sampleParser ReadSelect ((sampleSystem 0)\<lparr>stop := Some AtSend\<rparr>) =
     Some ((sampleSystem 0)\<lparr>stop := Some AtCloser, reader := ReadReturned\<rparr>) \<and>
   exec sampleLib sampleParser ReadSelect (sampleSystem 1) =
     Some ((sampleSystem 1)\<lparr>reader := InReadMessage\<rparr>) \<and>
   run sampleLib sampleParser [Work 0, Work 0] waitingBusy =
     Some (waitingBusy\<lparr>workers := [Inr []],
        events := [Logged (''recv: '' @ tickerMessage),
                   Called (Parse (Inl (parseTicker sampleLib tickerFrame))),
                   Called (AddMetric (Inl (parseTicker sampleLib tickerFrame)))]\<rparr>) \<and>
   reader (waitingBusy\<lparr>workers := [Inr []],
        events := [Logged (''recv: '' @ tickerMessage),
                   Called (Parse (Inl (parseTicker sampleLib tickerFrame))),
                   Called (AddMetric (Inl (parseTicker sampleLib tickerFrame)))]\<rparr>) = InReadMessage \<and>
   stop (waitingBusy\<lparr>workers := [Inr []],
        events := [Logged (''recv: '' @ tickerMessage),
                   Called (Parse (Inl (parseTicker sampleLib tickerFrame))),
                   Called (AddMetric (Inl (parseTicker sampleLib tickerFrame)))]\<rparr>) = Some AtSend"
proof -
  let ?done = "waitingBusy\<lparr>workers := [Inr []],
        events := [Logged (''recv: '' @ tickerMessage),
                   Called (Parse (Inl (parseTicker sampleLib tickerFrame))),
                   Called (AddMetric (Inl (parseTicker sampleLib tickerFrame)))]\<rparr>"
  have r: "run sampleLib sampleParser [Work 0, Work 0] waitingBusy = Some ?done"
    by (simp add: step_defs system_defs waiting_def waitingBusy_def addMetric_ticker)
  have w: "reader waitingBusy = InReadMessage \<and> inbound waitingBusy = [] \<and>
      stop waitingBusy = Some AtSend \<and> (\<forall>mv \<in> set [Work 0, Work 0]. \<not> arrival mv)"
    by (simp add: system_defs waiting_def waitingBusy_def)
  have a: "reader ((sampleSystem 0)\<lparr>stop := Some AtSend\<rparr>) = AtSelect \<and>
      \<not> crashed ((sampleSystem 0)\<lparr>stop := Some AtSend\<rparr>)"
    and b: "reader (sampleSystem 1) = AtSelect \<and> \<not> crashed (sampleSystem 1)"
    by (simp_all add: system_defs)
  from read_polls_then_blocks [of waitingBusy sampleLib sampleParser "[Work 0, Work 0]" ?done] w r
  have "reader ?done = InReadMessage \<and> stop ?done = Some AtSend" by blast
  moreover from read_polls_then_blocks
    [of "(sampleSystem 0)\<lparr>stop := Some AtSend\<rparr>" sampleLib sampleParser "[]"] a
  have "exec sampleLib sampleParser ReadSelect ((sampleSystem 0)\<lparr>stop := Some AtSend\<rparr>) =
     Some ((sampleSystem 0)\<lparr>stop := Some AtCloser, reader := ReadReturned\<rparr>)"
    by (simp add: system_defs)
  moreover from read_polls_then_blocks [of "sampleSystem 1" sampleLib sampleParser "[]"] b
  have "exec sampleLib sampleParser ReadSelect (sampleSystem 1) =
     Some ((sampleSystem 1)\<lparr>reader := InReadMessage\<rparr>)"
    by (simp add: system_defs)
  ultimately show ?thesis using r by simp
qed

end
